theory Spec2Isabelle
  imports Main "HOL-Library.Sublist"
begin

section \<open>Python strings\<close>

text \<open>
  A Python \<open>str\<close> is a sequence of code points. The embedding takes a \<^typ>\<open>char\<close> to be
  one code point below 256, so a \<^typ>\<open>string\<close> is a \<open>str\<close> over that range only. On
  this range \<open>str.lower\<close> maps character by character and \<open>str.isspace\<close> holds for
  exactly twelve code points; both tables are written out below. Beyond the range
  \<open>str.lower\<close> is no such map (it may change the length of a string and leaves some
  upper-case code points as they are), so nothing below is stated about the case of
  a lowered string: the theorems speak of \<open>py_lower s\<close> as a whole.
\<close>

definition py_isspace :: "char \<Rightarrow> bool" where
  "py_isspace c \<longleftrightarrow>
     (of_char c :: nat) \<in> {9, 10, 11, 12, 13, 28, 29, 30, 31, 32, 133, 160}"

definition py_isupper :: "char \<Rightarrow> bool" where
  "py_isupper c \<longleftrightarrow>
     (let n = (of_char c :: nat)
      in (65 \<le> n \<and> n \<le> 90) \<or> (192 \<le> n \<and> n \<le> 222 \<and> n \<noteq> 215))"

definition py_lower_char :: "char \<Rightarrow> char" where
  "py_lower_char c = (if py_isupper c then char_of (of_char c + (32 :: nat)) else c)"

text \<open>\<open>s.lower()\<close>\<close>

definition py_lower :: "string \<Rightarrow> string" where
  "py_lower s = map py_lower_char s"

text \<open>\<open>s.strip()\<close>: white space removed at both ends.\<close>

definition py_strip :: "string \<Rightarrow> string" where
  "py_strip s = rev (dropWhile py_isspace (rev (dropWhile py_isspace s)))"

text \<open>
  \<open>s.split(sep)\<close> for a separator of one character: the pieces between the
  separators, empty pieces kept, so the result is never the empty list.
\<close>

fun py_split :: "char \<Rightarrow> string \<Rightarrow> string list" where
  "py_split sep [] = [[]]"
| "py_split sep (c # cs) =
     (if c = sep then [] # py_split sep cs
      else (case py_split sep cs of
              w # ws \<Rightarrow> (c # w) # ws
            | [] \<Rightarrow> [[c]]))"

text \<open>\<open>t in s\<close> on strings: \<open>t\<close> starts at some position of \<open>s\<close>.\<close>

fun py_in :: "string \<Rightarrow> string \<Rightarrow> bool" where
  "py_in t [] \<longleftrightarrow> t = []"
| "py_in t (c # cs) \<longleftrightarrow> prefix t (c # cs) \<or> py_in t cs"

section \<open>Python values and dictionaries\<close>

text \<open>
  The values a decoded JSON document holds. Numbers are the integral ones; a
  dictionary is its list of items, looked up from the front.
\<close>

datatype json =
    JNull
  | JBool bool
  | JInt int
  | JStr string
  | JArr "json list"
  | JObj "(string \<times> json) list"

type_synonym dict = "(string \<times> json) list"

text \<open>The truth value Python gives a value in \<open>if\<close>, \<open>not\<close> and \<open>or\<close>.\<close>

fun truthy :: "json \<Rightarrow> bool" where
  "truthy JNull \<longleftrightarrow> False"
| "truthy (JBool b) \<longleftrightarrow> b"
| "truthy (JInt n) \<longleftrightarrow> n \<noteq> 0"
| "truthy (JStr s) \<longleftrightarrow> s \<noteq> []"
| "truthy (JArr xs) \<longleftrightarrow> xs \<noteq> []"
| "truthy (JObj kvs) \<longleftrightarrow> kvs \<noteq> []"

text \<open>\<open>d.get(k, default)\<close>\<close>

definition dict_get :: "dict \<Rightarrow> string \<Rightarrow> json \<Rightarrow> json" where
  "dict_get d k dflt = (case map_of d k of None \<Rightarrow> dflt | Some v \<Rightarrow> v)"

section \<open>Product lookup\<close>

text \<open>
  What \<open>requests.get\<close>, \<open>raise_for_status\<close> and \<open>response.json()\<close> leave behind: a
  \<open>RequestException\<close>, a \<open>ValueError\<close>, or the decoded document.
\<close>

datatype http_response = RequestFailed | InvalidBody | Body json

text \<open>
  The ways \<open>get_product_from_openfoodfacts\<close> ends without a product: the three
  messages it hands to \<open>st.error\<close> before returning \<open>None\<close>, the silent \<open>None\<close> for an
  unknown product, and the \<open>AttributeError\<close> that no handler of the function catches
  when the document or its \<open>product\<close> entry is not a dictionary.
\<close>

datatype lookup_error =
    BarcodeEmpty
  | FetchFailed
  | InvalidData
  | NotFound
  | AttributeError

definition get_product_from_openfoodfacts ::
  "string \<Rightarrow> http_response \<Rightarrow> lookup_error + dict" where
  "get_product_from_openfoodfacts barcode response =
     (if barcode = [] then Inl BarcodeEmpty
      else (case response of
          RequestFailed \<Rightarrow> Inl FetchFailed
        | InvalidBody \<Rightarrow> Inl InvalidData
        | Body (JObj data) \<Rightarrow>
            (if \<not> truthy (dict_get data ''product'' JNull) then Inl NotFound
             else (case dict_get data ''product'' JNull of
                 JObj product \<Rightarrow> Inr
                   [(''barcode'', JStr barcode),
                    (''title'', dict_get product ''product_name'' (JStr ''No product title found'')),
                    (''brand'', dict_get product ''brands'' (JStr ''Unknown brand'')),
                    (''description'',
                       dict_get product ''generic_name'' (JStr ''No description available'')),
                    (''ingredients'',
                       (if truthy (dict_get product ''ingredients_text'' (JStr ''''))
                        then dict_get product ''ingredients_text'' (JStr '''')
                        else JStr '''')),
                    (''category'', dict_get product ''categories'' (JStr ''Unknown category''))]
               | _ \<Rightarrow> Inl AttributeError))
        | Body _ \<Rightarrow> Inl AttributeError))"

section \<open>Safety check\<close>

text \<open>
  A row of the \<open>users\<close> table. The columns \<open>allergies\<close> and \<open>health_conditions\<close> are
  declared with a default but not as \<open>nullable=False\<close>, so either may hold \<open>None\<close>.
\<close>

record user =
  user_id :: int
  username :: string
  name :: string
  mobile :: string
  age :: int
  allergies :: "string option"
  health_conditions :: "string option"

text \<open>The dictionary \<open>check_product_safety\<close> returns.\<close>

record verdict =
  is_safe :: bool
  conflicting_allergies :: "string list"
  conflicting_conditions :: "string list"
  product_name :: json
  product_brand :: json
  product_ingredients :: json

text \<open>
  The three ways the check returns \<open>None\<close>, each after a message to \<open>st.error\<close>:
  ``Product information is required'', ``User information is required'', and, from
  the handler around the body, ``Error checking product safety: ...''.
\<close>

datatype check_error = ProductRequired | UserRequired | CheckFailed

text \<open>
  The comprehension over \<open>field.split(",")\<close>: pieces that are empty after stripping
  are dropped, the others stripped and lower-cased.
\<close>

definition normalize_tokens :: "string \<Rightarrow> string list" where
  "normalize_tokens field =
     map (\<lambda>a. py_lower (py_strip a)) (filter (\<lambda>a. py_strip a \<noteq> []) (py_split CHR '','' field))"

text \<open>The comprehension that keeps the tokens found in the ingredients.\<close>

definition conflicts :: "string list \<Rightarrow> string \<Rightarrow> string list" where
  "conflicts tokens ingredients_lower =
     filter (\<lambda>t. t \<noteq> [] \<and> py_in t ingredients_lower) tokens"

text \<open>
  \<open>not (a or b)\<close> on two lists: \<open>a or b\<close> is \<open>a\<close> when \<open>a\<close> is not empty and \<open>b\<close>
  otherwise, and \<open>not\<close> asks whether that list is empty.
\<close>

definition not_either :: "'a list \<Rightarrow> 'a list \<Rightarrow> bool" where
  "not_either a b \<longleftrightarrow> (if a \<noteq> [] then a else b) = []"

text \<open>
  A call of \<open>.split\<close> on a \<open>None\<close> column, or of \<open>.lower\<close> on an \<open>ingredients\<close> entry
  that is not a string, raises inside the \<open>try\<close> and ends in its handler.
\<close>

definition check_product_safety :: "dict option \<Rightarrow> user option \<Rightarrow> check_error + verdict" where
  "check_product_safety product_info usr =
     (case product_info of
        None \<Rightarrow> Inl ProductRequired
      | Some p \<Rightarrow>
         (if p = [] then Inl ProductRequired
          else (case usr of
             None \<Rightarrow> Inl UserRequired
           | Some u \<Rightarrow>
              (case allergies u of
                 None \<Rightarrow> Inl CheckFailed
               | Some a \<Rightarrow>
                  (case health_conditions u of
                     None \<Rightarrow> Inl CheckFailed
                   | Some h \<Rightarrow>
                      (case dict_get p ''ingredients'' (JStr '''') of
                         JStr ingredients \<Rightarrow>
                           (let user_allergies = normalize_tokens a;
                                user_conditions = normalize_tokens h;
                                ingredients_lower = py_lower ingredients;
                                conflicting_allergies = conflicts user_allergies ingredients_lower;
                                conflicting_conditions = conflicts user_conditions ingredients_lower
                            in Inr \<lparr>is_safe = not_either conflicting_allergies conflicting_conditions,
                                    conflicting_allergies = conflicting_allergies,
                                    conflicting_conditions = conflicting_conditions,
                                    product_name = dict_get p ''title'' (JStr ''Unknown''),
                                    product_brand = dict_get p ''brand'' (JStr ''Unknown''),
                                    product_ingredients = dict_get p ''ingredients'' (JStr '''')\<rparr>)
                       | _ \<Rightarrow> Inl CheckFailed))))))"

text \<open>
  A profile and a product as the scan page passes them on: the product is what
  the lookup builds, the profile a row of the table.
\<close>

definition example_user :: user where
  "example_user =
     \<lparr>user_id = 1, username = ''asha'', name = ''Asha'', mobile = ''5550100'', age = 30,
      allergies = Some ''soy, Egg'', health_conditions = Some ''Diabetes''\<rparr>"

definition example_product :: dict where
  "example_product =
     [(''barcode'', JStr ''3017620422003''),
      (''title'', JStr ''Veggie spread''),
      (''brand'', JStr ''Acme''),
      (''description'', JStr ''No description available''),
      (''ingredients'', JStr ''Eggplant extract, soy lecithin''),
      (''category'', JStr ''Spreads'')]"

section \<open>Facts about the string operations\<close>

lemma py_in_sublist: "py_in t s \<longleftrightarrow> sublist t s"
  by (induction s) (auto simp: sublist_Cons_right)

lemma py_in_iff: "py_in t s \<longleftrightarrow> (\<exists>pre suf. s = pre @ t @ suf)"
  by (simp add: py_in_sublist sublist_def)

lemma py_lower_Nil_iff: "py_lower s = [] \<longleftrightarrow> s = []"
  by (simp add: py_lower_def)

lemma py_split_not_Nil: "py_split sep s \<noteq> []"
  by (induction s) (auto split: list.splits)

lemma py_split_chars: "\<Union> (set ` set (py_split sep s)) = set s - {sep}"
proof (induction s)
  case Nil
  show ?case by simp
next
  case (Cons c cs)
  show ?case
  proof (cases "py_split sep cs")
    case Nil
    then show ?thesis using py_split_not_Nil [of sep cs] by simp
  next
    case (Cons w ws)
    then show ?thesis using Cons.IH by auto
  qed
qed

lemma py_strip_Nil_iff: "py_strip s = [] \<longleftrightarrow> (\<forall>c \<in> set s. py_isspace c)"
proof
  assume "py_strip s = []"
  then have "\<forall>x \<in> set (dropWhile py_isspace s). py_isspace x"
    by (simp add: py_strip_def)
  then have "dropWhile py_isspace s = []"
    using hd_dropWhile [of py_isspace s] by (cases "dropWhile py_isspace s") auto
  then show "\<forall>c \<in> set s. py_isspace c"
    by simp
next
  assume "\<forall>c \<in> set s. py_isspace c"
  then have "dropWhile py_isspace s = []" by simp
  then show "py_strip s = []" by (simp add: py_strip_def del: dropWhile_eq_Nil_conv)
qed

section \<open>Facts about the token lists\<close>

lemma normalize_tokens_nonempty: "t \<in> set (normalize_tokens a) \<Longrightarrow> t \<noteq> []"
  by (auto simp: normalize_tokens_def py_lower_Nil_iff)

lemma normalize_tokens_Nil_iff:
  "normalize_tokens s = [] \<longleftrightarrow> (\<forall>c \<in> set s. c = CHR '','' \<or> py_isspace c)"
proof -
  have "normalize_tokens s = [] \<longleftrightarrow>
      (\<forall>w \<in> set (py_split CHR '','' s). \<forall>c \<in> set w. py_isspace c)"
    by (simp add: normalize_tokens_def filter_empty_conv py_strip_Nil_iff)
  also have "\<dots> \<longleftrightarrow> (\<forall>c \<in> \<Union> (set ` set (py_split CHR '','' s)). py_isspace c)"
    by blast
  also have "\<dots> \<longleftrightarrow> (\<forall>c \<in> set s. c = CHR '','' \<or> py_isspace c)"
    unfolding py_split_chars by blast
  finally show ?thesis .
qed

lemma normalize_tokens_pieces:
  "normalize_tokens s =
     filter (\<lambda>t. t \<noteq> []) (map (\<lambda>a. py_lower (py_strip a)) (py_split CHR '','' s))"
  by (simp add: normalize_tokens_def filter_map comp_def py_lower_Nil_iff)

lemma conflicts_tokens:
  "conflicts (normalize_tokens s) hay = filter (\<lambda>t. py_in t hay) (normalize_tokens s)"
  unfolding conflicts_def
  by (rule filter_cong) (auto dest: normalize_tokens_nonempty)

lemma set_conflicts:
  "t \<in> set (conflicts (normalize_tokens s) hay) \<longleftrightarrow>
     t \<in> set (normalize_tokens s) \<and> (\<exists>pre suf. hay = pre @ t @ suf)"
  by (auto simp: conflicts_tokens py_in_iff)

lemma subseq_conflicts:
  "subseq (conflicts (normalize_tokens s) hay)
     (map (\<lambda>a. py_lower (py_strip a)) (py_split CHR '','' s))"
proof -
  have "subseq (conflicts (normalize_tokens s) hay) (normalize_tokens s)"
    by (simp add: conflicts_def)
  moreover have "subseq (normalize_tokens s)
      (map (\<lambda>a. py_lower (py_strip a)) (py_split CHR '','' s))"
    by (simp add: normalize_tokens_pieces)
  ultimately show ?thesis by (rule subseq_order.trans)
qed

lemma conflicts_empty_hay: "conflicts tokens [] = []"
  by (simp add: conflicts_def filter_empty_conv)

section \<open>Facts about the check\<close>

lemma check_product_safety_verdict:
  assumes "p \<noteq> []" and "allergies u = Some a" and "health_conditions u = Some h"
    and "dict_get p ''ingredients'' (JStr '''') = JStr ing"
  shows "check_product_safety (Some p) (Some u) =
     Inr \<lparr>is_safe = not_either (conflicts (normalize_tokens a) (py_lower ing))
                                (conflicts (normalize_tokens h) (py_lower ing)),
          conflicting_allergies = conflicts (normalize_tokens a) (py_lower ing),
          conflicting_conditions = conflicts (normalize_tokens h) (py_lower ing),
          product_name = dict_get p ''title'' (JStr ''Unknown''),
          product_brand = dict_get p ''brand'' (JStr ''Unknown''),
          product_ingredients = JStr ing\<rparr>"
  using assms by (simp add: check_product_safety_def Let_def)

lemma check_product_safety_InrD:
  assumes "check_product_safety product_info usr = Inr v"
  obtains p u a h ing where "product_info = Some p" and "usr = Some u" and "p \<noteq> []"
    and "allergies u = Some a" and "health_conditions u = Some h"
    and "dict_get p ''ingredients'' (JStr '''') = JStr ing"
  using assms
  by (auto simp: check_product_safety_def Let_def split: option.splits if_splits json.splits)

lemma example_verdict:
  "check_product_safety (Some example_product) (Some example_user) =
     Inr \<lparr>is_safe = False,
          conflicting_allergies = [''soy'', ''egg''],
          conflicting_conditions = [],
          product_name = JStr ''Veggie spread'',
          product_brand = JStr ''Acme'',
          product_ingredients = JStr ''Eggplant extract, soy lecithin''\<rparr>"
  by code_simp

section \<open>The verdict\<close>

text \<open>
  C1. Whenever the check returns a verdict, its \<open>is_safe\<close> entry is true exactly when
  both \<open>conflicting_allergies\<close> and \<open>conflicting_conditions\<close> are empty.
\<close>

theorem is_safe_iff_no_conflicts:
  assumes "check_product_safety product_info usr = Inr v"
  shows "is_safe v \<longleftrightarrow> conflicting_allergies v = [] \<and> conflicting_conditions v = []"
proof -
  from assms obtain p u a h ing where "product_info = Some p" and "usr = Some u" and "p \<noteq> []"
    and "allergies u = Some a" and "health_conditions u = Some h"
    and "dict_get p ''ingredients'' (JStr '''') = JStr ing"
    by (rule check_product_safety_InrD)
  then have "v = \<lparr>is_safe = not_either (conflicts (normalize_tokens a) (py_lower ing))
                                (conflicts (normalize_tokens h) (py_lower ing)),
          conflicting_allergies = conflicts (normalize_tokens a) (py_lower ing),
          conflicting_conditions = conflicts (normalize_tokens h) (py_lower ing),
          product_name = dict_get p ''title'' (JStr ''Unknown''),
          product_brand = dict_get p ''brand'' (JStr ''Unknown''),
          product_ingredients = JStr ing\<rparr>"
    using assms check_product_safety_verdict [of p u a h ing] by simp
  then show ?thesis by (simp add: not_either_def)
qed

theorem is_safe_iff_no_conflicts_witness:
  "check_product_safety (Some example_product) (Some example_user) =
     Inr \<lparr>is_safe = False,
          conflicting_allergies = [''soy'', ''egg''],
          conflicting_conditions = [],
          product_name = JStr ''Veggie spread'',
          product_brand = JStr ''Acme'',
          product_ingredients = JStr ''Eggplant extract, soy lecithin''\<rparr>
   \<and> (False \<longleftrightarrow> [''soy'', ''egg''] = ([] :: string list) \<and> ([] :: string list) = [])"
  using is_safe_iff_no_conflicts [OF example_verdict] example_verdict by simp

section \<open>Matching\<close>

text \<open>
  C2. For a profile whose two fields are strings and a product whose ingredient
  text is a string (the empty one when the entry is missing), the check returns a
  verdict in which a normalized allergy token is in \<open>conflicting_allergies\<close> exactly
  when it is a contiguous part of the lower-cased ingredient text, and nothing but
  normalized allergy tokens is there; the same for the condition tokens and
  \<open>conflicting_conditions\<close>. Normalized tokens are never empty.
\<close>

theorem conflict_iff_substring:
  assumes "p \<noteq> []" and "allergies u = Some a" and "health_conditions u = Some h"
    and "dict_get p ''ingredients'' (JStr '''') = JStr ing"
  shows "\<exists>v. check_product_safety (Some p) (Some u) = Inr v
    \<and> (\<forall>t \<in> set (normalize_tokens a). t \<noteq> [] \<and>
          (t \<in> set (conflicting_allergies v) \<longleftrightarrow> (\<exists>pre suf. py_lower ing = pre @ t @ suf)))
    \<and> (\<forall>t \<in> set (normalize_tokens h). t \<noteq> [] \<and>
          (t \<in> set (conflicting_conditions v) \<longleftrightarrow> (\<exists>pre suf. py_lower ing = pre @ t @ suf)))
    \<and> set (conflicting_allergies v) \<subseteq> set (normalize_tokens a)
    \<and> set (conflicting_conditions v) \<subseteq> set (normalize_tokens h)"
proof -
  let ?v = "\<lparr>is_safe = not_either (conflicts (normalize_tokens a) (py_lower ing))
                                (conflicts (normalize_tokens h) (py_lower ing)),
          conflicting_allergies = conflicts (normalize_tokens a) (py_lower ing),
          conflicting_conditions = conflicts (normalize_tokens h) (py_lower ing),
          product_name = dict_get p ''title'' (JStr ''Unknown''),
          product_brand = dict_get p ''brand'' (JStr ''Unknown''),
          product_ingredients = JStr ing\<rparr>"
  have "check_product_safety (Some p) (Some u) = Inr ?v"
    using assms by (rule check_product_safety_verdict)
  moreover have "\<forall>t \<in> set (normalize_tokens a). t \<noteq> [] \<and>
      (t \<in> set (conflicting_allergies ?v) \<longleftrightarrow> (\<exists>pre suf. py_lower ing = pre @ t @ suf))"
    by (simp add: set_conflicts normalize_tokens_nonempty)
  moreover have "\<forall>t \<in> set (normalize_tokens h). t \<noteq> [] \<and>
      (t \<in> set (conflicting_conditions ?v) \<longleftrightarrow> (\<exists>pre suf. py_lower ing = pre @ t @ suf))"
    by (simp add: set_conflicts normalize_tokens_nonempty)
  moreover have "set (conflicting_allergies ?v) \<subseteq> set (normalize_tokens a)"
    by (simp add: conflicts_def)
  moreover have "set (conflicting_conditions ?v) \<subseteq> set (normalize_tokens h)"
    by (simp add: conflicts_def)
  ultimately show ?thesis by blast
qed

theorem conflict_iff_substring_witness:
  "\<exists>v. check_product_safety (Some example_product) (Some example_user) = Inr v
    \<and> (\<forall>t \<in> set (normalize_tokens ''soy, Egg''). t \<noteq> [] \<and>
          (t \<in> set (conflicting_allergies v) \<longleftrightarrow>
             (\<exists>pre suf. py_lower ''Eggplant extract, soy lecithin'' = pre @ t @ suf)))
    \<and> (\<forall>t \<in> set (normalize_tokens ''Diabetes''). t \<noteq> [] \<and>
          (t \<in> set (conflicting_conditions v) \<longleftrightarrow>
             (\<exists>pre suf. py_lower ''Eggplant extract, soy lecithin'' = pre @ t @ suf)))
    \<and> set (conflicting_allergies v) \<subseteq> set (normalize_tokens ''soy, Egg'')
    \<and> set (conflicting_conditions v) \<subseteq> set (normalize_tokens ''Diabetes'')"
proof -
  have 1: "example_product \<noteq> []"
    by (simp add: example_product_def)
  have 2: "allergies example_user = Some ''soy, Egg''"
    by (simp add: example_user_def)
  have 3: "health_conditions example_user = Some ''Diabetes''"
    by (simp add: example_user_def)
  have 4: "dict_get example_product ''ingredients'' (JStr '''') =
      JStr ''Eggplant extract, soy lecithin''"
    by (simp add: example_product_def dict_get_def)
  show ?thesis
    by (rule conflict_iff_substring [OF 1 2 3 4])
qed

text \<open>
  C3. Under the same conditions, \<open>conflicting_allergies\<close> is the list of normalized
  allergy tokens with the unmatched ones left out, so its tokens stand in the order
  of the pieces of the comma-separated allergy string, whatever their places in the
  ingredient text; likewise \<open>conflicting_conditions\<close> and the condition string.
\<close>

theorem conflicts_in_profile_order:
  assumes "p \<noteq> []" and "allergies u = Some a" and "health_conditions u = Some h"
    and "dict_get p ''ingredients'' (JStr '''') = JStr ing"
  shows "\<exists>v. check_product_safety (Some p) (Some u) = Inr v
    \<and> conflicting_allergies v = filter (\<lambda>t. py_in t (py_lower ing)) (normalize_tokens a)
    \<and> subseq (conflicting_allergies v)
         (map (\<lambda>x. py_lower (py_strip x)) (py_split CHR '','' a))
    \<and> conflicting_conditions v = filter (\<lambda>t. py_in t (py_lower ing)) (normalize_tokens h)
    \<and> subseq (conflicting_conditions v)
         (map (\<lambda>x. py_lower (py_strip x)) (py_split CHR '','' h))"
proof -
  have "check_product_safety (Some p) (Some u) =
     Inr \<lparr>is_safe = not_either (conflicts (normalize_tokens a) (py_lower ing))
                                (conflicts (normalize_tokens h) (py_lower ing)),
          conflicting_allergies = conflicts (normalize_tokens a) (py_lower ing),
          conflicting_conditions = conflicts (normalize_tokens h) (py_lower ing),
          product_name = dict_get p ''title'' (JStr ''Unknown''),
          product_brand = dict_get p ''brand'' (JStr ''Unknown''),
          product_ingredients = JStr ing\<rparr>"
    using assms by (rule check_product_safety_verdict)
  then show ?thesis
    using conflicts_tokens [of a "py_lower ing"] conflicts_tokens [of h "py_lower ing"]
      subseq_conflicts [of a "py_lower ing"] subseq_conflicts [of h "py_lower ing"]
    by simp
qed

text \<open>
  In the example the ingredient text names egg before soy, the profile soy before
  egg, and the verdict follows the profile.
\<close>

theorem conflicts_in_profile_order_witness:
  "(\<exists>v. check_product_safety (Some example_product) (Some example_user) = Inr v
    \<and> conflicting_allergies v =
        filter (\<lambda>t. py_in t (py_lower ''Eggplant extract, soy lecithin''))
          (normalize_tokens ''soy, Egg'')
    \<and> subseq (conflicting_allergies v)
         (map (\<lambda>x. py_lower (py_strip x)) (py_split CHR '','' ''soy, Egg''))
    \<and> conflicting_conditions v =
        filter (\<lambda>t. py_in t (py_lower ''Eggplant extract, soy lecithin''))
          (normalize_tokens ''Diabetes'')
    \<and> subseq (conflicting_conditions v)
         (map (\<lambda>x. py_lower (py_strip x)) (py_split CHR '','' ''Diabetes'')))
   \<and> filter (\<lambda>t. py_in t (py_lower ''Eggplant extract, soy lecithin''))
          (normalize_tokens ''soy, Egg'') = [''soy'', ''egg'']"
proof -
  have 1: "example_product \<noteq> []"
    by (simp add: example_product_def)
  have 2: "allergies example_user = Some ''soy, Egg''"
    by (simp add: example_user_def)
  have 3: "health_conditions example_user = Some ''Diabetes''"
    by (simp add: example_user_def)
  have 4: "dict_get example_product ''ingredients'' (JStr '''') =
      JStr ''Eggplant extract, soy lecithin''"
    by (simp add: example_product_def dict_get_def)
  have 5: "filter (\<lambda>t. py_in t (py_lower ''Eggplant extract, soy lecithin''))
          (normalize_tokens ''soy, Egg'') = [''soy'', ''egg'']"
    by code_simp
  show ?thesis
    using conflicts_in_profile_order [OF 1 2 3 4] 5 by blast
qed

text \<open>
  C6. When every character of the allergy string and of the condition string is a
  comma or white space, which is when the two strings normalize to no token, the
  check returns a safe verdict with both conflict lists empty, for every ingredient
  text.
\<close>

theorem no_tokens_is_safe:
  assumes "p \<noteq> []" and "allergies u = Some a" and "health_conditions u = Some h"
    and "dict_get p ''ingredients'' (JStr '''') = JStr ing"
    and "\<forall>c \<in> set a. c = CHR '','' \<or> py_isspace c"
    and "\<forall>c \<in> set h. c = CHR '','' \<or> py_isspace c"
  shows "normalize_tokens a = [] \<and> normalize_tokens h = []
    \<and> (\<exists>v. check_product_safety (Some p) (Some u) = Inr v
          \<and> is_safe v \<and> conflicting_allergies v = [] \<and> conflicting_conditions v = [])"
proof -
  have a: "normalize_tokens a = []" and h: "normalize_tokens h = []"
    using assms(5,6) by (simp_all add: normalize_tokens_Nil_iff)
  have "check_product_safety (Some p) (Some u) =
     Inr \<lparr>is_safe = not_either (conflicts (normalize_tokens a) (py_lower ing))
                                (conflicts (normalize_tokens h) (py_lower ing)),
          conflicting_allergies = conflicts (normalize_tokens a) (py_lower ing),
          conflicting_conditions = conflicts (normalize_tokens h) (py_lower ing),
          product_name = dict_get p ''title'' (JStr ''Unknown''),
          product_brand = dict_get p ''brand'' (JStr ''Unknown''),
          product_ingredients = JStr ing\<rparr>"
    using assms(1-4) by (rule check_product_safety_verdict)
  then show ?thesis
    using a h by (simp add: conflicts_def not_either_def)
qed

theorem no_tokens_is_safe_witness:
  "normalize_tokens '' , ,'' = [] \<and> normalize_tokens '''' = []
    \<and> (\<exists>v. check_product_safety (Some example_product)
              (Some (example_user\<lparr>allergies := Some '' , ,'', health_conditions := Some ''''\<rparr>))
            = Inr v
          \<and> is_safe v \<and> conflicting_allergies v = [] \<and> conflicting_conditions v = [])"
proof -
  have 1: "example_product \<noteq> []"
    by (simp add: example_product_def)
  have 4: "dict_get example_product ''ingredients'' (JStr '''') =
      JStr ''Eggplant extract, soy lecithin''"
    by (simp add: example_product_def dict_get_def)
  have 5: "\<forall>c \<in> set '' , ,''. c = CHR '','' \<or> py_isspace c"
    by (simp add: py_isspace_def)
  show ?thesis
    using no_tokens_is_safe [OF 1 _ _ 4 5,
        of "example_user\<lparr>allergies := Some '' , ,'', health_conditions := Some ''''\<rparr>" "''''"]
    by simp
qed

text \<open>
  C7. For a profile with the allergy string \<open>egg\<close> and a product with the ingredient
  text \<open>eggplant extract\<close>, whatever the condition string and the other entries, the
  check returns a verdict with \<open>conflicting_allergies = ["egg"]\<close> that is not safe:
  the token matches inside a longer word.
\<close>

theorem egg_matches_eggplant:
  assumes "allergies u = Some ''egg''" and "health_conditions u = Some h"
    and "dict_get p ''ingredients'' (JStr '''') = JStr ''eggplant extract''"
  shows "\<exists>v. check_product_safety (Some p) (Some u) = Inr v
    \<and> conflicting_allergies v = [''egg''] \<and> \<not> is_safe v"
proof -
  have p: "p \<noteq> []"
    using assms(3) by (auto simp: dict_get_def)
  have c: "conflicts (normalize_tokens ''egg'') (py_lower ''eggplant extract'') = [''egg'']"
    by code_simp
  have "check_product_safety (Some p) (Some u) =
     Inr \<lparr>is_safe = not_either (conflicts (normalize_tokens ''egg'') (py_lower ''eggplant extract''))
                                (conflicts (normalize_tokens h) (py_lower ''eggplant extract'')),
          conflicting_allergies = conflicts (normalize_tokens ''egg'') (py_lower ''eggplant extract''),
          conflicting_conditions = conflicts (normalize_tokens h) (py_lower ''eggplant extract''),
          product_name = dict_get p ''title'' (JStr ''Unknown''),
          product_brand = dict_get p ''brand'' (JStr ''Unknown''),
          product_ingredients = JStr ''eggplant extract''\<rparr>"
    using p assms by (rule check_product_safety_verdict)
  then show ?thesis
    unfolding c by (simp add: not_either_def)
qed

theorem egg_matches_eggplant_witness:
  "\<exists>v. check_product_safety (Some [(''ingredients'', JStr ''eggplant extract'')])
          (Some (example_user\<lparr>allergies := Some ''egg'', health_conditions := Some ''''\<rparr>)) = Inr v
    \<and> conflicting_allergies v = [''egg''] \<and> \<not> is_safe v"
  using egg_matches_eggplant [of
      "example_user\<lparr>allergies := Some ''egg'', health_conditions := Some ''''\<rparr>" "''''"
      "[(''ingredients'', JStr ''eggplant extract'')]"]
  by (simp add: dict_get_def)

lemma conflict_token_form:
  assumes "t \<in> set (conflicts (normalize_tokens s) hay)"
  shows "\<exists>piece \<in> set (py_split CHR '','' s).
           py_strip piece \<noteq> [] \<and> t = py_lower (py_strip piece)"
proof -
  from assms have "t \<in> set (normalize_tokens s)"
    by (simp add: conflicts_def)
  then obtain piece where "piece \<in> set (py_split CHR '','' s)"
      "py_strip piece \<noteq> []" "t = py_lower (py_strip piece)"
    unfolding normalize_tokens_def by auto
  then show ?thesis
    by blast
qed

text \<open>
  C5. The claim is that the conflict lists report a token in the form the user
  typed it, trimmed but with its capitals. They do not: the normalizer keeps the
  lower-cased form only. What holds: the normalizer lower-cases each surviving
  piece, and every token of \<open>conflicting_allergies\<close> is that lower-cased form of a
  stripped, non-blank piece of the allergy string; likewise for
  \<open>conflicting_conditions\<close> and the condition string. The scan page capitalizes the
  tokens when it shows them.
\<close>

theorem reported_tokens_are_lower_cased:
  assumes "p \<noteq> []" and "allergies u = Some a" and "health_conditions u = Some h"
    and "dict_get p ''ingredients'' (JStr '''') = JStr ing"
  shows "\<exists>v. check_product_safety (Some p) (Some u) = Inr v
    \<and> (\<forall>t \<in> set (conflicting_allergies v).
          \<exists>piece \<in> set (py_split CHR '','' a).
             py_strip piece \<noteq> [] \<and> t = py_lower (py_strip piece))
    \<and> (\<forall>t \<in> set (conflicting_conditions v).
          \<exists>piece \<in> set (py_split CHR '','' h).
             py_strip piece \<noteq> [] \<and> t = py_lower (py_strip piece))"
proof -
  let ?v = "\<lparr>is_safe = not_either (conflicts (normalize_tokens a) (py_lower ing))
                                (conflicts (normalize_tokens h) (py_lower ing)),
          conflicting_allergies = conflicts (normalize_tokens a) (py_lower ing),
          conflicting_conditions = conflicts (normalize_tokens h) (py_lower ing),
          product_name = dict_get p ''title'' (JStr ''Unknown''),
          product_brand = dict_get p ''brand'' (JStr ''Unknown''),
          product_ingredients = JStr ing\<rparr>"
  have v: "check_product_safety (Some p) (Some u) = Inr ?v"
    using assms by (rule check_product_safety_verdict)
  have ca: "conflicting_allergies ?v = conflicts (normalize_tokens a) (py_lower ing)"
    by simp
  have cc: "conflicting_conditions ?v = conflicts (normalize_tokens h) (py_lower ing)"
    by simp
  have "\<forall>t \<in> set (conflicting_allergies ?v).
          \<exists>piece \<in> set (py_split CHR '','' a).
             py_strip piece \<noteq> [] \<and> t = py_lower (py_strip piece)"
    unfolding ca by (rule ballI) (rule conflict_token_form)
  moreover have "\<forall>t \<in> set (conflicting_conditions ?v).
          \<exists>piece \<in> set (py_split CHR '','' h).
             py_strip piece \<noteq> [] \<and> t = py_lower (py_strip piece)"
    unfolding cc by (rule ballI) (rule conflict_token_form)
  ultimately show ?thesis
    using v by (intro exI [of _ ?v] conjI)
qed

theorem reported_tokens_are_lower_cased_witness:
  "\<exists>v. check_product_safety (Some example_product) (Some example_user) = Inr v
    \<and> (\<forall>t \<in> set (conflicting_allergies v).
          \<exists>piece \<in> set (py_split CHR '','' ''soy, Egg'').
             py_strip piece \<noteq> [] \<and> t = py_lower (py_strip piece))
    \<and> (\<forall>t \<in> set (conflicting_conditions v).
          \<exists>piece \<in> set (py_split CHR '','' ''Diabetes'').
             py_strip piece \<noteq> [] \<and> t = py_lower (py_strip piece))"
proof -
  have 1: "example_product \<noteq> []"
    by (simp add: example_product_def)
  have 2: "allergies example_user = Some ''soy, Egg''"
    by (simp add: example_user_def)
  have 3: "health_conditions example_user = Some ''Diabetes''"
    by (simp add: example_user_def)
  have 4: "dict_get example_product ''ingredients'' (JStr '''') =
      JStr ''Eggplant extract, soy lecithin''"
    by (simp add: example_product_def dict_get_def)
  show ?thesis
    by (rule reported_tokens_are_lower_cased [OF 1 2 3 4])
qed

text \<open>
  The allergy \<open>Egg\<close>, typed with a capital and a leading blank, comes back as
  \<open>egg\<close>, not as the trimmed original \<open>Egg\<close>.
\<close>

theorem original_form_not_reported:
  "check_product_safety (Some [(''ingredients'', JStr ''Egg powder'')])
     (Some \<lparr>user_id = 2, username = ''ben'', name = ''Ben'', mobile = ''5550101'', age = 41,
            allergies = Some '' Egg'', health_conditions = Some ''''\<rparr>)
   = Inr \<lparr>is_safe = False,
          conflicting_allergies = [''egg''],
          conflicting_conditions = [],
          product_name = JStr ''Unknown'',
          product_brand = JStr ''Unknown'',
          product_ingredients = JStr ''Egg powder''\<rparr>
   \<and> py_strip '' Egg'' = ''Egg''
   \<and> [''egg''] \<noteq> [''Egg'']"
proof (intro conjI)
  show "check_product_safety (Some [(''ingredients'', JStr ''Egg powder'')])
     (Some \<lparr>user_id = 2, username = ''ben'', name = ''Ben'', mobile = ''5550101'', age = 41,
            allergies = Some '' Egg'', health_conditions = Some ''''\<rparr>)
   = Inr \<lparr>is_safe = False,
          conflicting_allergies = [''egg''],
          conflicting_conditions = [],
          product_name = JStr ''Unknown'',
          product_brand = JStr ''Unknown'',
          product_ingredients = JStr ''Egg powder''\<rparr>"
    by code_simp
  show "py_strip '' Egg'' = ''Egg''"
    by code_simp
  show "[''egg''] \<noteq> [''Egg'']"
    by simp
qed

section \<open>Failures\<close>

text \<open>
  C4. The claim is that an absent product or user is the only way to fail. The code
  also takes an empty product dictionary for an absent one, and the handler around
  its body turns any exception into a third failure. What holds: a missing or empty
  product fails with ``Product information is required'' and, the product being
  there, a missing user with ``User information is required'', without a verdict;
  with a non-empty product and a user, the check returns a verdict exactly when
  \<open>allergies\<close> and \<open>health_conditions\<close> are strings and the \<open>ingredients\<close> entry is a
  string or missing, and fails with ``Error checking product safety'' otherwise; a
  missing or empty ingredient string is valid and gives a safe verdict without
  matches.
\<close>

theorem check_product_safety_failures:
  "check_product_safety None usr = Inl ProductRequired
   \<and> check_product_safety (Some []) usr = Inl ProductRequired
   \<and> (p \<noteq> [] \<longrightarrow>
        check_product_safety (Some p) None = Inl UserRequired
        \<and> ((\<exists>v. check_product_safety (Some p) (Some u) = Inr v) \<longleftrightarrow>
             allergies u \<noteq> None \<and> health_conditions u \<noteq> None
             \<and> (\<exists>s. dict_get p ''ingredients'' (JStr '''') = JStr s))
        \<and> ((\<exists>v. check_product_safety (Some p) (Some u) = Inr v)
             \<or> check_product_safety (Some p) (Some u) = Inl CheckFailed)
        \<and> (allergies u \<noteq> None \<and> health_conditions u \<noteq> None
             \<and> (map_of p ''ingredients'' = None \<or> map_of p ''ingredients'' = Some (JStr ''''))
             \<longrightarrow> (\<exists>v. check_product_safety (Some p) (Some u) = Inr v
                   \<and> is_safe v \<and> conflicting_allergies v = [] \<and> conflicting_conditions v = [])))"
proof -
  have none: "check_product_safety None usr = Inl ProductRequired"
    by (simp add: check_product_safety_def)
  have empty: "check_product_safety (Some []) usr = Inl ProductRequired"
    by (simp add: check_product_safety_def)
  have rest: "check_product_safety (Some p) None = Inl UserRequired
        \<and> ((\<exists>v. check_product_safety (Some p) (Some u) = Inr v) \<longleftrightarrow>
             allergies u \<noteq> None \<and> health_conditions u \<noteq> None
             \<and> (\<exists>s. dict_get p ''ingredients'' (JStr '''') = JStr s))
        \<and> ((\<exists>v. check_product_safety (Some p) (Some u) = Inr v)
             \<or> check_product_safety (Some p) (Some u) = Inl CheckFailed)
        \<and> (allergies u \<noteq> None \<and> health_conditions u \<noteq> None
             \<and> (map_of p ''ingredients'' = None \<or> map_of p ''ingredients'' = Some (JStr ''''))
             \<longrightarrow> (\<exists>v. check_product_safety (Some p) (Some u) = Inr v
                   \<and> is_safe v \<and> conflicting_allergies v = [] \<and> conflicting_conditions v = []))"
    if p: "p \<noteq> []"
  proof -
    have user: "check_product_safety (Some p) None = Inl UserRequired"
      using p by (simp add: check_product_safety_def)
    have iff: "(\<exists>v. check_product_safety (Some p) (Some u) = Inr v) \<longleftrightarrow>
             allergies u \<noteq> None \<and> health_conditions u \<noteq> None
             \<and> (\<exists>s. dict_get p ''ingredients'' (JStr '''') = JStr s)"
      using p
      by (auto simp: check_product_safety_def Let_def split: option.splits json.splits)
    have alt: "(\<exists>v. check_product_safety (Some p) (Some u) = Inr v)
             \<or> check_product_safety (Some p) (Some u) = Inl CheckFailed"
      using p
      by (auto simp: check_product_safety_def Let_def split: option.splits json.splits)
    have blank: "\<exists>v. check_product_safety (Some p) (Some u) = Inr v
                   \<and> is_safe v \<and> conflicting_allergies v = [] \<and> conflicting_conditions v = []"
      if "allergies u \<noteq> None" and "health_conditions u \<noteq> None"
        and "map_of p ''ingredients'' = None \<or> map_of p ''ingredients'' = Some (JStr '''')"
    proof -
      from that obtain a h where a: "allergies u = Some a" and h: "health_conditions u = Some h"
        by auto
      from that(3) have ing: "dict_get p ''ingredients'' (JStr '''') = JStr ''''"
        by (auto simp: dict_get_def)
      show ?thesis
        unfolding check_product_safety_verdict [OF p a h ing]
        by (simp add: py_lower_def conflicts_empty_hay not_either_def)
    qed
    from user iff alt blank show ?thesis by blast
  qed
  from none empty rest show ?thesis by blast
qed

theorem check_product_safety_failures_witness:
  "check_product_safety None (Some example_user) = Inl ProductRequired
   \<and> check_product_safety (Some []) (Some example_user) = Inl ProductRequired
   \<and> check_product_safety (Some [(''title'', JStr ''Water'')]) None = Inl UserRequired
   \<and> (\<exists>v. check_product_safety (Some [(''title'', JStr ''Water'')]) (Some example_user) = Inr v
         \<and> is_safe v \<and> conflicting_allergies v = [] \<and> conflicting_conditions v = [])"
  using check_product_safety_failures
    [of "Some example_user" "[(''title'', JStr ''Water'')]" example_user]
  by (simp add: example_user_def)

text \<open>
  Three calls with a product and a user that end without a verdict: an empty
  product dictionary, a profile whose \<open>allergies\<close> column is \<open>None\<close>, and an
  \<open>ingredients\<close> entry that is a number.
\<close>

theorem failure_with_both_present:
  "check_product_safety (Some []) (Some example_user) = Inl ProductRequired
   \<and> check_product_safety (Some example_product) (Some (example_user\<lparr>allergies := None\<rparr>))
       = Inl CheckFailed
   \<and> check_product_safety (Some [(''title'', JStr ''Tea''), (''ingredients'', JInt 5)])
       (Some example_user) = Inl CheckFailed"
  by code_simp

section \<open>The product record\<close>

text \<open>
  C8. The claim is that every upstream record gets its missing fields filled and
  its present fields carried through unmodified. Two guards of the code stand
  against it: an empty record is reported as not found, and \<open>or ""\<close> replaces every
  false value of \<open>ingredients_text\<close>. What holds, for a non-empty barcode and a
  document whose \<open>product\<close> entry is a non-empty dictionary: the lookup returns a
  product in which a key absent upstream has its placeholder (``No product title
  found'', ``Unknown brand'', ``No description available'', the empty string for the
  ingredients, ``Unknown category''), a key present upstream keeps its value, \<open>null\<close>
  included, except that \<open>ingredients\<close> is the empty string whenever
  \<open>ingredients_text\<close> is \<open>null\<close>, \<open>false\<close>, \<open>0\<close>, empty or absent, so that it is never
  \<open>null\<close>; for an empty \<open>product\<close> dictionary the lookup reports no product.
\<close>

theorem lookup_fills_placeholders:
  assumes "barcode \<noteq> []" and "dict_get data ''product'' JNull = JObj product"
  shows "(product = [] \<longrightarrow>
            get_product_from_openfoodfacts barcode (Body (JObj data)) = Inl NotFound)
    \<and> (product \<noteq> [] \<longrightarrow>
         (\<exists>d. get_product_from_openfoodfacts barcode (Body (JObj data)) = Inr d
           \<and> map_of d ''barcode'' = Some (JStr barcode)
           \<and> map_of d ''title'' =
               Some (case map_of product ''product_name'' of
                       None \<Rightarrow> JStr ''No product title found'' | Some v \<Rightarrow> v)
           \<and> map_of d ''brand'' =
               Some (case map_of product ''brands'' of
                       None \<Rightarrow> JStr ''Unknown brand'' | Some v \<Rightarrow> v)
           \<and> map_of d ''description'' =
               Some (case map_of product ''generic_name'' of
                       None \<Rightarrow> JStr ''No description available'' | Some v \<Rightarrow> v)
           \<and> map_of d ''ingredients'' =
               Some (case map_of product ''ingredients_text'' of
                       None \<Rightarrow> JStr '''' | Some v \<Rightarrow> if truthy v then v else JStr '''')
           \<and> map_of d ''ingredients'' \<noteq> Some JNull
           \<and> map_of d ''category'' =
               Some (case map_of product ''categories'' of
                       None \<Rightarrow> JStr ''Unknown category'' | Some v \<Rightarrow> v)))"
proof (intro conjI impI)
  assume "product = []"
  then show "get_product_from_openfoodfacts barcode (Body (JObj data)) = Inl NotFound"
    using assms by (simp add: get_product_from_openfoodfacts_def)
next
  assume ne: "product \<noteq> []"
  let ?d = "[(''barcode'', JStr barcode),
      (''title'', dict_get product ''product_name'' (JStr ''No product title found'')),
      (''brand'', dict_get product ''brands'' (JStr ''Unknown brand'')),
      (''description'', dict_get product ''generic_name'' (JStr ''No description available'')),
      (''ingredients'',
         (if truthy (dict_get product ''ingredients_text'' (JStr ''''))
          then dict_get product ''ingredients_text'' (JStr '''')
          else JStr '''')),
      (''category'', dict_get product ''categories'' (JStr ''Unknown category''))]"
  have d: "get_product_from_openfoodfacts barcode (Body (JObj data)) = Inr ?d"
    using assms ne by (simp add: get_product_from_openfoodfacts_def)
  have 1: "map_of ?d ''barcode'' = Some (JStr barcode)"
    by simp
  have 2: "map_of ?d ''title'' =
      Some (case map_of product ''product_name'' of
              None \<Rightarrow> JStr ''No product title found'' | Some v \<Rightarrow> v)"
    by (simp add: dict_get_def)
  have 3: "map_of ?d ''brand'' =
      Some (case map_of product ''brands'' of None \<Rightarrow> JStr ''Unknown brand'' | Some v \<Rightarrow> v)"
    by (simp add: dict_get_def)
  have 4: "map_of ?d ''description'' =
      Some (case map_of product ''generic_name'' of
              None \<Rightarrow> JStr ''No description available'' | Some v \<Rightarrow> v)"
    by (simp add: dict_get_def)
  have 5: "map_of ?d ''ingredients'' =
      Some (case map_of product ''ingredients_text'' of
              None \<Rightarrow> JStr '''' | Some v \<Rightarrow> if truthy v then v else JStr '''')"
    by (simp add: dict_get_def split: option.splits)
  have 6: "map_of ?d ''ingredients'' \<noteq> Some JNull"
    unfolding 5 by (auto split: option.splits)
  have 7: "map_of ?d ''category'' =
      Some (case map_of product ''categories'' of
              None \<Rightarrow> JStr ''Unknown category'' | Some v \<Rightarrow> v)"
    by (simp add: dict_get_def)
  from d 1 2 3 4 5 6 7
  show "\<exists>d. get_product_from_openfoodfacts barcode (Body (JObj data)) = Inr d
           \<and> map_of d ''barcode'' = Some (JStr barcode)
           \<and> map_of d ''title'' =
               Some (case map_of product ''product_name'' of
                       None \<Rightarrow> JStr ''No product title found'' | Some v \<Rightarrow> v)
           \<and> map_of d ''brand'' =
               Some (case map_of product ''brands'' of
                       None \<Rightarrow> JStr ''Unknown brand'' | Some v \<Rightarrow> v)
           \<and> map_of d ''description'' =
               Some (case map_of product ''generic_name'' of
                       None \<Rightarrow> JStr ''No description available'' | Some v \<Rightarrow> v)
           \<and> map_of d ''ingredients'' =
               Some (case map_of product ''ingredients_text'' of
                       None \<Rightarrow> JStr '''' | Some v \<Rightarrow> if truthy v then v else JStr '''')
           \<and> map_of d ''ingredients'' \<noteq> Some JNull
           \<and> map_of d ''category'' =
               Some (case map_of product ''categories'' of
                       None \<Rightarrow> JStr ''Unknown category'' | Some v \<Rightarrow> v)"
    by (intro exI [of _ ?d] conjI)
qed

theorem lookup_fills_placeholders_witness:
  "get_product_from_openfoodfacts ''3017620422003'' (Body (JObj [(''product'', JObj [])]))
     = Inl NotFound
   \<and> (\<exists>d. get_product_from_openfoodfacts ''3017620422003''
             (Body (JObj [(''status'', JInt 1),
                          (''product'', JObj [(''product_name'', JStr ''Veggie spread''),
                                              (''ingredients_text'', JNull)])])) = Inr d
         \<and> map_of d ''barcode'' = Some (JStr ''3017620422003'')
         \<and> map_of d ''title'' = Some (JStr ''Veggie spread'')
         \<and> map_of d ''brand'' = Some (JStr ''Unknown brand'')
         \<and> map_of d ''description'' = Some (JStr ''No description available'')
         \<and> map_of d ''ingredients'' = Some (JStr '''')
         \<and> map_of d ''ingredients'' \<noteq> Some JNull
         \<and> map_of d ''category'' = Some (JStr ''Unknown category''))"
proof -
  have b: "''3017620422003'' \<noteq> []"
    by simp
  have e: "dict_get [(''product'', JObj [])] ''product'' JNull = JObj []"
    by (simp add: dict_get_def)
  have p: "dict_get [(''status'', JInt 1),
                     (''product'', JObj [(''product_name'', JStr ''Veggie spread''),
                                         (''ingredients_text'', JNull)])] ''product'' JNull
      = JObj [(''product_name'', JStr ''Veggie spread''), (''ingredients_text'', JNull)]"
    by (simp add: dict_get_def)
  show ?thesis
    using lookup_fills_placeholders [OF b e] lookup_fills_placeholders [OF b p]
    by simp
qed

text \<open>
  A record whose name and ingredient text are both \<open>null\<close> keeps the \<open>null\<close> name and
  loses the \<open>null\<close> ingredient text; an ingredient text of \<open>0\<close> becomes the empty
  string; an empty record is not found.
\<close>

theorem lookup_changes_present_fields:
  "get_product_from_openfoodfacts ''3017620422003''
     (Body (JObj [(''product'', JObj [(''product_name'', JNull), (''brands'', JStr ''Acme''),
                                      (''ingredients_text'', JNull)])]))
   = Inr [(''barcode'', JStr ''3017620422003''),
          (''title'', JNull),
          (''brand'', JStr ''Acme''),
          (''description'', JStr ''No description available''),
          (''ingredients'', JStr ''''),
          (''category'', JStr ''Unknown category'')]
   \<and> get_product_from_openfoodfacts ''3017620422003''
     (Body (JObj [(''product'', JObj [(''brands'', JStr ''Acme''), (''ingredients_text'', JInt 0)])]))
   = Inr [(''barcode'', JStr ''3017620422003''),
          (''title'', JStr ''No product title found''),
          (''brand'', JStr ''Acme''),
          (''description'', JStr ''No description available''),
          (''ingredients'', JStr ''''),
          (''category'', JStr ''Unknown category'')]
   \<and> get_product_from_openfoodfacts ''3017620422003'' (Body (JObj [(''product'', JObj [])]))
   = Inl NotFound"
  by (simp add: get_product_from_openfoodfacts_def dict_get_def)

section \<open>The product fields of the verdict\<close>




end
